theory Spec2Isabelle
  imports Main "HOL-Library.AList"
begin

section \<open>trx-push: configuration, login, fetch and push of pending invoices\<close>

text \<open>
  The program (\<^verbatim>\<open>main.go\<close>) is sequential glue around four library services: the file
  system and the YAML decoder, the JSON codec, the HTTP client and the SQL driver. The
  functions of \<^verbatim>\<open>main.go\<close> are embedded one to one; what the libraries answer is not
  part of the program and is supplied by a record \<open>env\<close>. The two package-level
  variables \<^verbatim>\<open>config\<close> and \<^verbatim>\<open>jwtToken\<close> are fields of an explicit \<open>state\<close>, next to
  what the process emits (log lines, standard output, HTTP requests) and the handles it
  holds open.
\<close>

subsection \<open>Data\<close>

text \<open>A Go \<^verbatim>\<open>error\<close> is carried by its message (\<^verbatim>\<open>err.Error()\<close>).\<close>

datatype go_error = GoError string

fun error_msg :: "go_error \<Rightarrow> string" where
  "error_msg (GoError m) = m"

text \<open>
  \<^verbatim>\<open>type Config struct { API struct {...}; Database struct {...} }\<close>.
  Both inner structs have a field \<^verbatim>\<open>Password\<close>; the two are told apart by a prefix.
\<close>

record API_t =
  LoginURL :: string
  PushURL :: string
  Username :: string
  api_Password :: string

record Database_t =
  Host :: string
  Port :: int
  User :: string
  db_Password :: string
  DBName :: string
  SSLMode :: string

record Config =
  API :: API_t
  Database :: Database_t

record Transaction =
  InvoiceID :: string

record LoginResponse =
  Token :: string

text \<open>The zero values Go gives to the package-level and local variables.\<close>

definition Config_zero :: Config where
  "Config_zero =
     \<lparr>API = \<lparr>LoginURL = [], PushURL = [], Username = [], api_Password = []\<rparr>,
      Database = \<lparr>Host = [], Port = 0, User = [], db_Password = [], DBName = [],
                  SSLMode = []\<rparr>\<rparr>"

definition LoginResponse_zero :: LoginResponse where
  "LoginResponse_zero = \<lparr>Token = []\<rparr>"

text \<open>
  An HTTP request as \<^verbatim>\<open>http.NewRequest\<close> builds it and \<^verbatim>\<open>Header.Set\<close> changes it; a
  response as far as the program reads it: the status code and what \<^verbatim>\<open>io.ReadAll\<close>
  gives for the body.
\<close>

record http_Request =
  Method :: string
  URL :: string
  Header :: "(string \<times> string) list"
  ReqBody :: "string option"

record http_Response =
  StatusCode :: int
  Body :: "go_error + string"

text \<open>One result row, as what \<^verbatim>\<open>rows.Scan(&number)\<close> gives for it.\<close>

type_synonym row = "go_error + string"

text \<open>Handles the program acquires and has to give back.\<close>

datatype resource = FileHandle | RespBody | DBHandle | RowsHandle

subsection \<open>The libraries\<close>

text \<open>
  \<^item> \<open>os_Open name\<close>: the content of the file, or the error of \<^verbatim>\<open>os.Open\<close>;
  \<^item> \<open>yaml_Decode content c\<close>: \<^verbatim>\<open>Decode(&config)\<close> on that content, with \<open>c\<close> the
    value behind the pointer before the call: the error (if any) and the value
    behind the pointer after the call;
  \<^item> \<open>json_Marshal\<close>: the encoding of a \<^verbatim>\<open>map[string]string\<close>, given by its entries;
  \<^item> \<open>json_Unmarshal body r\<close>: \<^verbatim>\<open>json.Unmarshal(body, &loginResp)\<close>, as for YAML;
  \<^item> \<open>url_Parse url\<close>: the error with which \<^verbatim>\<open>http.NewRequest\<close> refuses the URL;
  \<^item> \<open>client_Do n req\<close>: the answer to the \<open>n\<close>-th request the process sends
    (counted from 0), a transport error or a response;
  \<^item> \<open>sql_Open driver dsn\<close>: the error of \<^verbatim>\<open>sql.Open\<close>;
  \<^item> \<open>db_Query dsn query\<close>: the error of \<^verbatim>\<open>db.Query\<close>, or the rows that
    \<^verbatim>\<open>rows.Next()\<close> delivers, in order.
\<close>

record env =
  os_Open :: "string \<Rightarrow> go_error + string"
  yaml_Decode :: "string \<Rightarrow> Config \<Rightarrow> go_error option \<times> Config"
  json_Marshal :: "(string \<times> string) list \<Rightarrow> string"
  json_Unmarshal :: "string \<Rightarrow> LoginResponse \<Rightarrow> go_error option \<times> LoginResponse"
  url_Parse :: "string \<Rightarrow> go_error option"
  client_Do :: "nat \<Rightarrow> http_Request \<Rightarrow> go_error + http_Response"
  sql_Open :: "string \<Rightarrow> string \<Rightarrow> go_error option"
  db_Query :: "string \<Rightarrow> string \<Rightarrow> go_error + row list"

subsection \<open>The process state\<close>

record state =
  config :: Config
  jwtToken :: string
  log_out :: "string list"
  stdout :: "string list"
  http_calls :: "http_Request list"
  open_res :: "resource list"

definition state_zero :: state where
  "state_zero =
     \<lparr>config = Config_zero, jwtToken = [], log_out = [], stdout = [], http_calls = [],
      open_res = []\<rparr>"

text \<open>
  \<^verbatim>\<open>log.Printf\<close> appends one line to the log (the time stamp the logger puts in front
  is left out), \<^verbatim>\<open>fmt.Printf\<close> one piece of text to standard output.
  \<^verbatim>\<open>log.Fatalf\<close> is \<^verbatim>\<open>log.Printf\<close> followed by \<^verbatim>\<open>os.Exit(1)\<close>.
\<close>

definition log_Printf :: "string \<Rightarrow> state \<Rightarrow> state" where
  "log_Printf msg s = s\<lparr>log_out := log_out s @ [msg]\<rparr>"

definition fmt_Printf :: "string \<Rightarrow> state \<Rightarrow> state" where
  "fmt_Printf msg s = s\<lparr>stdout := stdout s @ [msg]\<rparr>"

definition log_Fatalf :: "string \<Rightarrow> state \<Rightarrow> int \<times> state" where
  "log_Fatalf msg s = (1, log_Printf msg s)"

definition acquire :: "resource \<Rightarrow> state \<Rightarrow> state" where
  "acquire r s = s\<lparr>open_res := r # open_res s\<rparr>"

definition release :: "resource \<Rightarrow> state \<Rightarrow> state" where
  "release r s = s\<lparr>open_res := remove1 r (open_res s)\<rparr>"

text \<open>The verb \<^verbatim>\<open>%d\<close> of \<^verbatim>\<open>fmt\<close>: an integer in decimal.\<close>

fun show_nat :: "nat \<Rightarrow> string" where
  "show_nat n =
     (if n < 10 then [char_of (48 + n)]
      else show_nat (n div 10) @ [char_of (48 + n mod 10)])"

declare show_nat.simps [simp del]

definition show_int :: "int \<Rightarrow> string" where
  "show_int i = (if i < 0 then CHR ''-'' # show_nat (nat (- i)) else show_nat (nat i))"

text \<open>
  \<^verbatim>\<open>http.NewRequest(method, url, body)\<close>: the request with that method, URL and body
  and no header, unless the URL is refused.
\<close>

definition http_NewRequest ::
  "env \<Rightarrow> string \<Rightarrow> string \<Rightarrow> string option \<Rightarrow> go_error + http_Request" where
  "http_NewRequest env method url body =
     (case url_Parse env url of
        Some err \<Rightarrow> Inl err
      | None \<Rightarrow> Inr \<lparr>Method = method, URL = url, Header = [], ReqBody = body\<rparr>)"

definition Header_Set :: "string \<Rightarrow> string \<Rightarrow> http_Request \<Rightarrow> http_Request" where
  "Header_Set k v req = req\<lparr>Header := AList.update k v (Header req)\<rparr>"

text \<open>
  \<^verbatim>\<open>client.Do(req)\<close>: the request goes out (it is recorded), and a response comes with
  a body that is open until closed.
\<close>

definition http_Do :: "env \<Rightarrow> http_Request \<Rightarrow> state \<Rightarrow> (go_error + http_Response) \<times> state" where
  "http_Do env req s =
     (let s1 = s\<lparr>http_calls := http_calls s @ [req]\<rparr> in
      case client_Do env (length (http_calls s)) req of
        Inl err \<Rightarrow> (Inl err, s1)
      | Inr resp \<Rightarrow> (Inr resp, acquire RespBody s1))"

subsection \<open>loadConfig\<close>

definition loadConfig :: "env \<Rightarrow> state \<Rightarrow> go_error option \<times> state" where
  "loadConfig env s =
     (case os_Open env ''config.yaml'' of
        Inl err \<Rightarrow> (Some err, s)
      | Inr content \<Rightarrow>
          (let s1 = acquire FileHandle s;
               (r, c) = yaml_Decode env content (config s1);
               s2 = s1\<lparr>config := c\<rparr>
           in (r, release FileHandle s2)))"

subsection \<open>getTransactionsFromDB\<close>

text \<open>The loop over \<^verbatim>\<open>rows.Next()\<close>, with \<^verbatim>\<open>transactions\<close> as the accumulator.\<close>

fun scan_rows :: "row list \<Rightarrow> Transaction list \<Rightarrow> go_error + Transaction list" where
  "scan_rows [] transactions = Inr transactions"
| "scan_rows (r # rows) transactions =
     (case r of
        Inl err \<Rightarrow> Inl err
      | Inr number \<Rightarrow> scan_rows rows (transactions @ [\<lparr>InvoiceID = number\<rparr>]))"

definition psqlInfo :: "Database_t \<Rightarrow> string" where
  "psqlInfo d =
     ''host='' @ Host d @ '' port='' @ show_int (Port d) @ '' user='' @ User d
     @ '' password='' @ db_Password d @ '' dbname='' @ DBName d
     @ '' sslmode='' @ SSLMode d"

definition getTransactionsFromDB :: "env \<Rightarrow> state \<Rightarrow> (go_error + Transaction list) \<times> state" where
  "getTransactionsFromDB env s =
     (let dsn = psqlInfo (Database (config s)) in
      case sql_Open env ''postgres'' dsn of
        Some err \<Rightarrow> (Inl err, s)
      | None \<Rightarrow>
          (let s1 = acquire DBHandle s;
               (r, s2) =
                 (case db_Query env dsn ''SELECT number FROM invoice WHERE status = 1'' of
                    Inl err \<Rightarrow> (Inl err, s1)
                  | Inr rows \<Rightarrow>
                      (let s3 = acquire RowsHandle s1
                       in (scan_rows rows [], release RowsHandle s3)))
           in (r, release DBHandle s2)))"

subsection \<open>pushTransaction\<close>

definition pushTransaction :: "env \<Rightarrow> string \<Rightarrow> state \<Rightarrow> go_error option \<times> state" where
  "pushTransaction env invoiceID s =
     (let url = PushURL (API (config s)) @ ''?invoice_number='' @ invoiceID;
          s1 = fmt_Printf (''URL push: '' @ url @ [CHR 0x0A]) s
      in case http_NewRequest env ''POST'' url None of
           Inl err \<Rightarrow> (Some err, s1)
         | Inr req0 \<Rightarrow>
             (let req = Header_Set ''Authorization'' (''Bearer '' @ jwtToken s1) req0 in
              case http_Do env req s1 of
                (Inl err, s2) \<Rightarrow> (Some err, s2)
              | (Inr resp, s2) \<Rightarrow>
                  (let r = (if StatusCode resp \<noteq> 200
                            then Some (GoError (''failed to push transaction with invoice_id ''
                                   @ invoiceID @ '', status: '' @ show_int (StatusCode resp)))
                            else None)
                   in (r, release RespBody s2))))"

subsection \<open>loginAndGetToken\<close>

definition loginAndGetToken :: "env \<Rightarrow> state \<Rightarrow> go_error option \<times> state" where
  "loginAndGetToken env s =
     (let loginData = [(''email'', Username (API (config s))),
                       (''password'', api_Password (API (config s)))];
          jsonData = json_Marshal env loginData
      in case http_NewRequest env ''POST'' (LoginURL (API (config s))) (Some jsonData) of
           Inl err \<Rightarrow> (Some err, s)
         | Inr req0 \<Rightarrow>
             (let req = Header_Set ''Content-Type'' ''application/json'' req0 in
              case http_Do env req s of
                (Inl err, s1) \<Rightarrow> (Some err, s1)
              | (Inr resp, s1) \<Rightarrow>
                  (let (r, s2) =
                     (case Body resp of
                        Inl err \<Rightarrow> (Some err, s1)
                      | Inr body \<Rightarrow>
                          if StatusCode resp \<noteq> 200
                          then (Some (GoError (''failed to login, status: ''
                                  @ show_int (StatusCode resp))), s1)
                          else
                            (case json_Unmarshal env body LoginResponse_zero of
                               (Some err, loginResp) \<Rightarrow> (Some err, s1)
                             | (None, loginResp) \<Rightarrow>
                                 (let s3 = s1\<lparr>jwtToken := Token loginResp\<rparr>
                                  in (None, log_Printf (''Successfully acquired JWT token: ''
                                            @ jwtToken s3) s3))))
                   in (r, release RespBody s2))))"

subsection \<open>main\<close>

text \<open>The \<^verbatim>\<open>for _, txn := range transactions\<close> loop of \<^verbatim>\<open>main\<close>.\<close>

fun push_loop :: "env \<Rightarrow> Transaction list \<Rightarrow> state \<Rightarrow> state" where
  "push_loop env [] s = s"
| "push_loop env (txn # transactions) s =
     (case pushTransaction env (InvoiceID txn) s of
        (Some err, s1) \<Rightarrow>
          push_loop env transactions
            (log_Printf (''Failed to push transaction with invoice_id '' @ InvoiceID txn
               @ '': '' @ error_msg err) s1)
      | (None, s1) \<Rightarrow>
          push_loop env transactions
            (log_Printf (''Successfully pushed transaction with invoice_id ''
               @ InvoiceID txn) s1))"

text \<open>\<^verbatim>\<open>main\<close>: the exit status of the process and the state it leaves.\<close>

definition main :: "env \<Rightarrow> state \<Rightarrow> int \<times> state" where
  "main env s =
     (case loadConfig env s of
        (Some err, s1) \<Rightarrow> log_Fatalf (''Failed to load config: '' @ error_msg err) s1
      | (None, s1) \<Rightarrow>
          (case loginAndGetToken env s1 of
             (Some err, s2) \<Rightarrow>
               log_Fatalf (''Failed to login and get JWT token: '' @ error_msg err) s2
           | (None, s2) \<Rightarrow>
               (case getTransactionsFromDB env s2 of
                  (Inl err, s3) \<Rightarrow>
                    log_Fatalf (''Failed to get transactions from the database: ''
                      @ error_msg err) s3
                | (Inr transactions, s3) \<Rightarrow> (0, push_loop env transactions s3))))"

subsection \<open>A concrete environment\<close>

text \<open>
  One environment to run the program in: a configuration file and the settings the
  decoder reads from it, a login endpoint that hands out the token \<^verbatim>\<open>abc123\<close>, a
  database with the two pending invoices \<^verbatim>\<open>INV-1\<close> and \<^verbatim>\<open>INV-2\<close>, and a push endpoint
  that accepts the first and answers 500 for anything else.
\<close>

definition yaml_demo :: string where
  "yaml_demo =
     ''api:\<newline>''
     @ ''  login_url: http://api.test/login\<newline>''
     @ ''  push_url: http://api.test/push\<newline>''
     @ ''  username: svc@example.com\<newline>''
     @ ''  password: s3cret\<newline>''
     @ ''database:\<newline>''
     @ ''  host: db.test\<newline>''
     @ ''  port: 5432\<newline>''
     @ ''  user: pusher\<newline>''
     @ ''  password: pw\<newline>''
     @ ''  dbname: billing\<newline>''
     @ ''  sslmode: disable\<newline>''"

definition cfg_demo :: Config where
  "cfg_demo =
     \<lparr>API = \<lparr>LoginURL = ''http://api.test/login'', PushURL = ''http://api.test/push'',
             Username = ''svc@example.com'', api_Password = ''s3cret''\<rparr>,
      Database = \<lparr>Host = ''db.test'', Port = 5432, User = ''pusher'', db_Password = ''pw'',
                  DBName = ''billing'', SSLMode = ''disable''\<rparr>\<rparr>"

definition env_demo :: env where
  \<open>env_demo =
     \<lparr>os_Open = (\<lambda>name. if name = ''config.yaml'' then Inr yaml_demo
                        else Inl (GoError ''open: no such file or directory'')),
      yaml_Decode = (\<lambda>content c.
         if content = yaml_demo then (None, cfg_demo)
         else (Some (GoError ''yaml: did not find expected key''), c)),
      json_Marshal = (\<lambda>kvs. ''{"email":"svc@example.com","password":"s3cret"}''),
      json_Unmarshal = (\<lambda>body r.
         if body = ''{"access_token":"abc123"}'' then (None, r\<lparr>Token := ''abc123''\<rparr>)
         else if body = ''{}'' then (None, r)
         else (Some (GoError ''invalid character''), r)),
      url_Parse = (\<lambda>url. if list_ex (\<lambda>c. of_char c < (32::nat) \<or> of_char c = (127::nat)) url
                          then Some (GoError ''net/url: invalid control character in URL'')
                          else None),
      client_Do = (\<lambda>n req.
         if URL req = ''http://api.test/login''
         then Inr \<lparr>StatusCode = 200, Body = Inr ''{"access_token":"abc123"}''\<rparr>
         else if URL req = ''http://api.test/push?invoice_number=INV-1''
         then Inr \<lparr>StatusCode = 200, Body = Inr []\<rparr>
         else Inr \<lparr>StatusCode = 500, Body = Inr []\<rparr>),
      sql_Open = (\<lambda>driver dsn. None),
      db_Query = (\<lambda>dsn query. Inr [Inr ''INV-1'', Inr ''INV-2''])\<rparr>\<close>

text \<open>
  The requests the program sends, for use in the statements below: the login request of
  \<open>loginAndGetToken\<close> and the request of \<open>pushTransaction\<close> for one invoice.
\<close>

abbreviation login_request :: "env \<Rightarrow> state \<Rightarrow> http_Request" where
  "login_request env s \<equiv>
     \<lparr>Method = ''POST'', URL = LoginURL (API (config s)),
      Header = [(''Content-Type'', ''application/json'')],
      ReqBody = Some (json_Marshal env
        [(''email'', Username (API (config s))),
         (''password'', api_Password (API (config s)))])\<rparr>"

abbreviation push_request :: "state \<Rightarrow> string \<Rightarrow> http_Request" where
  "push_request s invoiceID \<equiv>
     \<lparr>Method = ''POST'',
      URL = PushURL (API (config s)) @ ''?invoice_number='' @ invoiceID,
      Header = [(''Authorization'', ''Bearer '' @ jwtToken s)],
      ReqBody = None\<rparr>"

text \<open>
  Variants of the environment: a login endpoint that answers 401; one that answers 200
  with a JSON object that has no \<^verbatim>\<open>access_token\<close>; a missing configuration file; a
  configuration file whose \<^verbatim>\<open>database.port\<close> is not a number; a push endpoint that refuses
  the connection; a database whose second row has no number; a database with no pending
  invoice.

  In \<open>env_mismatch\<close> the decoder behaves as \<^verbatim>\<open>yaml.v2\<close> documents for a type mismatch:
  decoding goes on to the end of the document, the values that fit are stored, and a
  \<^verbatim>\<open>*yaml.TypeError\<close> is returned for those that do not. In \<open>env_demo\<close> the URL parser
  refuses, as \<^verbatim>\<open>net/url\<close> does, a URL that holds an ASCII control character.
\<close>

definition env_401 :: env where
  \<open>env_401 = env_demo\<lparr>client_Do := (\<lambda>n req.
      Inr \<lparr>StatusCode = 401, Body = Inr ''{"error":"unauthorized"}''\<rparr>)\<rparr>\<close>

definition env_no_token :: env where
  "env_no_token = env_demo\<lparr>client_Do := (\<lambda>n req.
      Inr \<lparr>StatusCode = 200, Body = Inr ''{}''\<rparr>)\<rparr>"

definition env_missing :: env where
  "env_missing = env_demo\<lparr>os_Open := (\<lambda>name.
      Inl (GoError ''open config.yaml: no such file or directory''))\<rparr>"

definition env_mismatch :: env where
  "env_mismatch = env_demo
     \<lparr>os_Open := (\<lambda>name. Inr ''database:\<newline>  host: db.test\<newline>  port: abc\<newline>''),
      yaml_Decode := (\<lambda>content c.
        (Some (GoError ''yaml: unmarshal errors: line 3: cannot unmarshal !!str into int''),
         c\<lparr>Database := (Database c)\<lparr>Host := ''db.test''\<rparr>\<rparr>))\<rparr>"

definition env_refused :: env where
  \<open>env_refused = env_demo\<lparr>client_Do := (\<lambda>n req.
      Inl (GoError (''Post "'' @ URL req
             @ ''": dial tcp 192.0.2.1:80: connect: connection refused'')))\<rparr>\<close>

definition env_scan_error :: env where
  "env_scan_error = env_demo\<lparr>db_Query := (\<lambda>dsn query.
      Inr [Inr ''INV-1'',
           Inl (GoError ''sql: Scan error on column index 0: converting NULL to string is unsupported'')])\<rparr>"

definition env_empty :: env where
  "env_empty = env_demo\<lparr>db_Query := (\<lambda>dsn query. Inr [])\<rparr>"

text \<open>
  More variants: a database that delivers \<^verbatim>\<open>INV-2\<close>, the invoice the endpoint answers
  500 for, before \<^verbatim>\<open>INV-1\<close>; and two login endpoints that answer 200 with valid JSON
  in which no member is named \<^verbatim>\<open>access_token\<close>, the array \<^verbatim>\<open>[]\<close> and an object whose key
  is \<^verbatim>\<open>ACCESS_TOKEN\<close>. For these two the decoder behaves as \<^verbatim>\<open>encoding/json\<close>
  documents: an array cannot be stored in a struct and gives an
  \<^verbatim>\<open>*json.UnmarshalTypeError\<close>, and an object key is matched to the field's tag exactly
  or, failing that, without regard to letter case.
\<close>

definition env_fail_first :: env where
  "env_fail_first = env_demo\<lparr>db_Query := (\<lambda>dsn query. Inr [Inr ''INV-2'', Inr ''INV-1''])\<rparr>"

definition env_json_array :: env where
  "env_json_array = env_demo
     \<lparr>client_Do := (\<lambda>n req. Inr \<lparr>StatusCode = 200, Body = Inr ''[]''\<rparr>),
      json_Unmarshal := (\<lambda>body r.
        (Some (GoError ''json: cannot unmarshal array into Go value of type main.LoginResponse''),
         r))\<rparr>"

definition env_json_upper :: env where
  \<open>env_json_upper = env_demo
     \<lparr>client_Do := (\<lambda>n req.
        Inr \<lparr>StatusCode = 200, Body = Inr ''{"ACCESS_TOKEN":"abc123"}''\<rparr>),
      json_Unmarshal := (\<lambda>body r. (None, r\<lparr>Token := ''abc123''\<rparr>))\<rparr>\<close>

text \<open>
  The states of the run of \<open>main\<close> in \<open>env_demo\<close>: after the configuration is loaded,
  and after the login.
\<close>

definition st_loaded :: state where
  "st_loaded = state_zero\<lparr>config := cfg_demo\<rparr>"

definition st_logged_in :: state where
  "st_logged_in =
     st_loaded\<lparr>http_calls := [login_request env_demo st_loaded],
               jwtToken := ''abc123'',
               log_out := [''Successfully acquired JWT token: abc123'']\<rparr>"

section \<open>Properties\<close>

subsection \<open>Decimal rendering\<close>

lemma show_int_500: "show_int 500 = ''500''"
  by code_simp

lemma show_int_401: "show_int 401 = ''401''"
  by code_simp

subsection \<open>The fetcher\<close>

lemma scan_rows_ok:
  "scan_rows (map Inr numbers) acc = Inr (acc @ map (\<lambda>number. \<lparr>InvoiceID = number\<rparr>) numbers)"
  by (induction numbers arbitrary: acc) simp_all

text \<open>
  The fetcher leaves the process state as it found it: its handles are closed again, and
  it neither logs nor prints nor touches the two package-level variables.
\<close>

lemma getTransactionsFromDB_state: "snd (getTransactionsFromDB env s) = s"
  by (simp add: getTransactionsFromDB_def acquire_def release_def Let_def
      split: option.splits sum.splits)

text \<open>
  C4. The fetcher returns the records in the order of the rows: when the connection
  opens and the query delivers rows whose \<^verbatim>\<open>number\<close> columns scan to \<open>numbers\<close>, the
  result is one \<open>Transaction\<close> per row, in row order, with that number as
  \<open>InvoiceID\<close>. For the rows \<^verbatim>\<open>INV-1\<close>, \<^verbatim>\<open>INV-2\<close> this is the sequence of the two
  records with these identifiers.
\<close>

theorem getTransactionsFromDB_order:
  assumes "sql_Open env ''postgres'' (psqlInfo (Database (config s))) = None"
    and "db_Query env (psqlInfo (Database (config s)))
           ''SELECT number FROM invoice WHERE status = 1'' = Inr (map Inr numbers)"
  shows "fst (getTransactionsFromDB env s)
           = Inr (map (\<lambda>number. \<lparr>InvoiceID = number\<rparr>) numbers)"
  using assms by (simp add: getTransactionsFromDB_def Let_def scan_rows_ok)

theorem getTransactionsFromDB_order_witness:
  "sql_Open env_demo ''postgres'' (psqlInfo (Database (config state_zero))) = None
   \<and> db_Query env_demo (psqlInfo (Database (config state_zero)))
        ''SELECT number FROM invoice WHERE status = 1'' = Inr (map Inr [''INV-1'', ''INV-2''])
   \<and> fst (getTransactionsFromDB env_demo state_zero)
        = Inr [\<lparr>InvoiceID = ''INV-1''\<rparr>, \<lparr>InvoiceID = ''INV-2''\<rparr>]"
proof -
  have a: "sql_Open env_demo ''postgres'' (psqlInfo (Database (config state_zero))) = None"
    by (simp add: env_demo_def)
  have b: "db_Query env_demo (psqlInfo (Database (config state_zero)))
        ''SELECT number FROM invoice WHERE status = 1'' = Inr (map Inr [''INV-1'', ''INV-2''])"
    by (simp add: env_demo_def)
  show ?thesis
    using a b getTransactionsFromDB_order [OF a b] by simp
qed

text \<open>
  C7. Whatever the driver answers (\<^verbatim>\<open>sql.Open\<close> fails, the query fails, a row fails to
  scan, or all goes well), the handles open when \<open>getTransactionsFromDB\<close> returns are
  those that were open when it was called: the database handle and the row cursor
  acquired inside have been closed by the deferred calls.
\<close>

theorem getTransactionsFromDB_releases:
  "open_res (snd (getTransactionsFromDB env s)) = open_res s"
  by (simp add: getTransactionsFromDB_def acquire_def release_def Let_def
      split: option.splits sum.splits)

text \<open>A fetch that ends in a scan error, called while a response body is still open.\<close>

theorem getTransactionsFromDB_releases_witness:
  "fst (getTransactionsFromDB env_scan_error (acquire RespBody st_logged_in))
     = Inl (GoError ''sql: Scan error on column index 0: converting NULL to string is unsupported'')
   \<and> open_res (snd (getTransactionsFromDB env_scan_error (acquire RespBody st_logged_in)))
       = [RespBody]"
proof -
  have "fst (getTransactionsFromDB env_scan_error (acquire RespBody st_logged_in))
     = Inl (GoError ''sql: Scan error on column index 0: converting NULL to string is unsupported'')"
    by (simp add: getTransactionsFromDB_def env_scan_error_def env_demo_def Let_def)
  moreover have "open_res (acquire RespBody st_logged_in) = [RespBody]"
    by (simp add: acquire_def st_logged_in_def st_loaded_def state_zero_def)
  ultimately show ?thesis
    using getTransactionsFromDB_releases [of env_scan_error "acquire RespBody st_logged_in"]
    by simp
qed

subsection \<open>One push\<close>

text \<open>
  What \<open>pushTransaction\<close> leaves alone, what it prints, and what it sends.
\<close>

lemma pushTransaction_frame:
  "config (snd (pushTransaction env invoiceID s)) = config s
   \<and> jwtToken (snd (pushTransaction env invoiceID s)) = jwtToken s
   \<and> log_out (snd (pushTransaction env invoiceID s)) = log_out s
   \<and> open_res (snd (pushTransaction env invoiceID s)) = open_res s"
  by (simp add: pushTransaction_def http_NewRequest_def http_Do_def fmt_Printf_def
      acquire_def release_def Let_def split: option.splits sum.splits)

lemma pushTransaction_stdout:
  "stdout (snd (pushTransaction env invoiceID s))
     = stdout s @ [''URL push: '' @ PushURL (API (config s)) @ ''?invoice_number=''
                   @ invoiceID @ [CHR 0x0A]]"
  by (simp add: pushTransaction_def http_NewRequest_def http_Do_def fmt_Printf_def
      acquire_def release_def Let_def split: option.splits sum.splits)

lemma pushTransaction_calls:
  "http_calls (snd (pushTransaction env invoiceID s))
     = http_calls s @
       (case url_Parse env (PushURL (API (config s)) @ ''?invoice_number='' @ invoiceID) of
          Some err \<Rightarrow> []
        | None \<Rightarrow> [\<lparr>Method = ''POST'',
                     URL = PushURL (API (config s)) @ ''?invoice_number='' @ invoiceID,
                     Header = [(''Authorization'', ''Bearer '' @ jwtToken s)],
                     ReqBody = None\<rparr>])"
  by (simp add: pushTransaction_def http_NewRequest_def http_Do_def fmt_Printf_def
      Header_Set_def acquire_def release_def Let_def split: option.splits sum.splits)

text \<open>
  C5, as the code has it. \<open>pushTransaction\<close> builds a POST request to
  \<^verbatim>\<open><api.push_url>?invoice_number=<record_id>\<close> with the header
  \<^verbatim>\<open>Authorization: Bearer <token>\<close> and no body. If \<^verbatim>\<open>http.NewRequest\<close> refuses the
  URL, its error is returned and nothing is sent. Otherwise exactly that request is
  sent, and the call succeeds if and only if a response arrives with status 200; a
  response with another status gives an error whose message names the invoice
  identifier and the status; a transport error is returned as it is.
\<close>

theorem pushTransaction_result:
  "(url_Parse env (PushURL (API (config s)) @ ''?invoice_number='' @ invoiceID) = Some err
      \<longrightarrow> fst (pushTransaction env invoiceID s) = Some err
          \<and> http_calls (snd (pushTransaction env invoiceID s)) = http_calls s)
   \<and> (url_Parse env (PushURL (API (config s)) @ ''?invoice_number='' @ invoiceID) = None
      \<longrightarrow> http_calls (snd (pushTransaction env invoiceID s))
            = http_calls s @ [push_request s invoiceID]
          \<and> (fst (pushTransaction env invoiceID s) = None) =
              (\<exists>resp'. client_Do env (length (http_calls s)) (push_request s invoiceID)
                         = Inr resp' \<and> StatusCode resp' = 200)
          \<and> (client_Do env (length (http_calls s)) (push_request s invoiceID) = Inr resp
               \<and> StatusCode resp \<noteq> 200
             \<longrightarrow> fst (pushTransaction env invoiceID s)
                   = Some (GoError (''failed to push transaction with invoice_id ''
                        @ invoiceID @ '', status: '' @ show_int (StatusCode resp))))
          \<and> (client_Do env (length (http_calls s)) (push_request s invoiceID) = Inl err
             \<longrightarrow> fst (pushTransaction env invoiceID s) = Some err))"
proof (intro conjI impI)
  assume "url_Parse env (PushURL (API (config s)) @ ''?invoice_number='' @ invoiceID) = Some err"
  then show "fst (pushTransaction env invoiceID s) = Some err"
    and "http_calls (snd (pushTransaction env invoiceID s)) = http_calls s"
    by (simp_all add: pushTransaction_def http_NewRequest_def fmt_Printf_def)
next
  assume u: "url_Parse env (PushURL (API (config s)) @ ''?invoice_number='' @ invoiceID) = None"
  have r: "fst (pushTransaction env invoiceID s)
        = (case client_Do env (length (http_calls s)) (push_request s invoiceID) of
             Inl e \<Rightarrow> Some e
           | Inr resp' \<Rightarrow>
               if StatusCode resp' \<noteq> 200
               then Some (GoError (''failed to push transaction with invoice_id ''
                        @ invoiceID @ '', status: '' @ show_int (StatusCode resp')))
               else None)"
    using u
    by (simp add: pushTransaction_def http_NewRequest_def http_Do_def Header_Set_def
        fmt_Printf_def Let_def split: sum.splits)
  show "http_calls (snd (pushTransaction env invoiceID s))
            = http_calls s @ [push_request s invoiceID]"
    using pushTransaction_calls [of env invoiceID s] u by simp
  show "(fst (pushTransaction env invoiceID s) = None) =
              (\<exists>resp'. client_Do env (length (http_calls s)) (push_request s invoiceID)
                         = Inr resp' \<and> StatusCode resp' = 200)"
    by (simp add: r split: sum.splits)
  show "fst (pushTransaction env invoiceID s)
                   = Some (GoError (''failed to push transaction with invoice_id ''
                        @ invoiceID @ '', status: '' @ show_int (StatusCode resp)))"
    if "client_Do env (length (http_calls s)) (push_request s invoiceID) = Inr resp
               \<and> StatusCode resp \<noteq> 200"
    using that by (simp add: r)
  show "fst (pushTransaction env invoiceID s) = Some err"
    if "client_Do env (length (http_calls s)) (push_request s invoiceID) = Inl err"
    using that by (simp add: r)
qed

text \<open>
  The theorem at the second record of the run in \<open>env_demo\<close> (status 500) and at the
  first (status 200).
\<close>

theorem pushTransaction_result_witness:
  "url_Parse env_demo (PushURL (API (config st_logged_in)) @ ''?invoice_number='' @ ''INV-2'')
     = None
   \<and> client_Do env_demo (length (http_calls st_logged_in)) (push_request st_logged_in ''INV-2'')
       = Inr \<lparr>StatusCode = 500, Body = Inr []\<rparr>
   \<and> http_calls (snd (pushTransaction env_demo ''INV-2'' st_logged_in))
       = [login_request env_demo st_loaded,
          \<lparr>Method = ''POST'', URL = ''http://api.test/push?invoice_number=INV-2'',
           Header = [(''Authorization'', ''Bearer abc123'')], ReqBody = None\<rparr>]
   \<and> fst (pushTransaction env_demo ''INV-2'' st_logged_in)
       = Some (GoError ''failed to push transaction with invoice_id INV-2, status: 500'')
   \<and> url_Parse env_demo (PushURL (API (config st_logged_in)) @ ''?invoice_number='' @ ''INV-1'')
       = None
   \<and> client_Do env_demo (length (http_calls st_logged_in)) (push_request st_logged_in ''INV-1'')
       = Inr \<lparr>StatusCode = 200, Body = Inr []\<rparr>
   \<and> fst (pushTransaction env_demo ''INV-1'' st_logged_in) = None"
proof -
  have a: "url_Parse env_demo (PushURL (API (config st_logged_in)) @ ''?invoice_number=''
             @ ''INV-2'') = None"
    and a1: "url_Parse env_demo (PushURL (API (config st_logged_in)) @ ''?invoice_number=''
             @ ''INV-1'') = None"
    by (simp_all add: env_demo_def st_logged_in_def st_loaded_def cfg_demo_def)
  have b: "client_Do env_demo (length (http_calls st_logged_in))
             (push_request st_logged_in ''INV-2'') = Inr \<lparr>StatusCode = 500, Body = Inr []\<rparr>"
    and b1: "client_Do env_demo (length (http_calls st_logged_in))
             (push_request st_logged_in ''INV-1'') = Inr \<lparr>StatusCode = 200, Body = Inr []\<rparr>"
    by (simp_all add: env_demo_def st_logged_in_def st_loaded_def cfg_demo_def)
  have c: "PushURL (API (config st_logged_in)) = ''http://api.test/push''"
    and c1: "jwtToken st_logged_in = ''abc123''"
    and d: "http_calls st_logged_in = [login_request env_demo st_loaded]"
    by (simp_all add: st_logged_in_def st_loaded_def cfg_demo_def)
  note t2 = pushTransaction_result [of env_demo st_logged_in "''INV-2''" _
        "\<lparr>StatusCode = 500, Body = Inr []\<rparr>"]
  note t1 = pushTransaction_result [of env_demo st_logged_in "''INV-1''"]
  have e: "http_calls (snd (pushTransaction env_demo ''INV-2'' st_logged_in))
             = http_calls st_logged_in @ [push_request st_logged_in ''INV-2'']"
    and f: "fst (pushTransaction env_demo ''INV-2'' st_logged_in)
       = Some (GoError (''failed to push transaction with invoice_id '' @ ''INV-2''
            @ '', status: '' @ show_int (StatusCode \<lparr>StatusCode = 500, Body = Inr []\<rparr>)))"
    using t2 a b by simp_all
  have g: "fst (pushTransaction env_demo ''INV-1'' st_logged_in) = None"
    using t1 a1 b1 by simp
  show ?thesis
    using a b a1 b1 e f g by (simp add: c c1 d show_int_500)
qed

text \<open>
  Two pushes outside the unqualified statement (a request for every identifier; a
  failure message that always names the invoice identifier and the status): a refused
  connection, whose error is handed on with the message of the transport, which has no
  status to name, and an identifier that ends in a line feed, for which the URL is
  refused and no request leaves the process.
\<close>

theorem pushTransaction_message_counterexample:
  \<open>fst (pushTransaction env_refused ''INV-1'' st_logged_in)
     = Some (GoError ''Post "http://api.test/push?invoice_number=INV-1": dial tcp 192.0.2.1:80: connect: connection refused'')
   \<and> fst (pushTransaction env_demo ''INV-1\<newline>'' st_logged_in)
       = Some (GoError ''net/url: invalid control character in URL'')
   \<and> http_calls (snd (pushTransaction env_demo ''INV-1\<newline>'' st_logged_in))
       = http_calls st_logged_in\<close>
  by (simp add: pushTransaction_def http_NewRequest_def http_Do_def Header_Set_def
      fmt_Printf_def acquire_def release_def env_refused_def env_demo_def st_logged_in_def
      st_loaded_def cfg_demo_def state_zero_def)

text \<open>
  C10. The URL is the configured push endpoint, the text \<^verbatim>\<open>?invoice_number=\<close> and the
  identifier, byte for byte, with nothing escaped: this is the text that is printed,
  that \<^verbatim>\<open>http.NewRequest\<close> gets to judge, and that the request carries when it is sent.
\<close>

theorem pushTransaction_url_verbatim:
  "stdout (snd (pushTransaction env invoiceID s))
     = stdout s @ [''URL push: '' @ PushURL (API (config s)) @ ''?invoice_number=''
                   @ invoiceID @ [CHR 0x0A]]
   \<and> (url_Parse env (PushURL (API (config s)) @ ''?invoice_number='' @ invoiceID) = Some err
       \<longrightarrow> fst (pushTransaction env invoiceID s) = Some err)
   \<and> (url_Parse env (PushURL (API (config s)) @ ''?invoice_number='' @ invoiceID) = None
       \<longrightarrow> map URL (http_calls (snd (pushTransaction env invoiceID s)))
            = map URL (http_calls s)
              @ [PushURL (API (config s)) @ ''?invoice_number='' @ invoiceID])"
proof (intro conjI impI)
  show "stdout (snd (pushTransaction env invoiceID s))
     = stdout s @ [''URL push: '' @ PushURL (API (config s)) @ ''?invoice_number=''
                   @ invoiceID @ [CHR 0x0A]]"
    by (rule pushTransaction_stdout)
next
  assume "url_Parse env (PushURL (API (config s)) @ ''?invoice_number='' @ invoiceID) = Some err"
  then show "fst (pushTransaction env invoiceID s) = Some err"
    by (simp add: pushTransaction_def http_NewRequest_def)
next
  assume "url_Parse env (PushURL (API (config s)) @ ''?invoice_number='' @ invoiceID) = None"
  then show "map URL (http_calls (snd (pushTransaction env invoiceID s)))
            = map URL (http_calls s)
              @ [PushURL (API (config s)) @ ''?invoice_number='' @ invoiceID]"
    using pushTransaction_calls [of env invoiceID s] by simp
qed

text \<open>
  An identifier with \<^verbatim>\<open>&\<close>, a space and \<^verbatim>\<open>#\<close> reaches the request URL unchanged, where
  \<^verbatim>\<open>&b=2\<close> reads as a second query parameter.
\<close>

theorem pushTransaction_url_verbatim_witness:
  "url_Parse env_demo (PushURL (API (config st_logged_in)) @ ''?invoice_number=''
     @ ''A&b=2 #c'') = None
   \<and> stdout (snd (pushTransaction env_demo ''A&b=2 #c'' st_logged_in))
       = [''URL push: http://api.test/push?invoice_number=A&b=2 #c\<newline>'']
   \<and> map URL (http_calls (snd (pushTransaction env_demo ''A&b=2 #c'' st_logged_in)))
       = [''http://api.test/login'', ''http://api.test/push?invoice_number=A&b=2 #c'']"
proof -
  have a: "url_Parse env_demo (PushURL (API (config st_logged_in)) @ ''?invoice_number=''
     @ ''A&b=2 #c'') = None"
    by (simp add: env_demo_def st_logged_in_def st_loaded_def cfg_demo_def)
  have c: "PushURL (API (config st_logged_in)) = ''http://api.test/push''"
    and d: "map URL (http_calls st_logged_in) = [''http://api.test/login'']"
    and e: "stdout st_logged_in = []"
    by (simp_all add: st_logged_in_def st_loaded_def cfg_demo_def state_zero_def)
  show ?thesis
    using a pushTransaction_url_verbatim [of env_demo "''A&b=2 #c''" st_logged_in]
    by (simp add: c d e)
qed

subsection \<open>The dispatch loop\<close>

lemma push_loop_frame:
  "config (push_loop env transactions s) = config s
   \<and> jwtToken (push_loop env transactions s) = jwtToken s
   \<and> open_res (push_loop env transactions s) = open_res s"
proof (induction transactions arbitrary: s)
  case Nil
  show ?case by simp
next
  case (Cons txn transactions)
  obtain r s1 where p: "pushTransaction env (InvoiceID txn) s = (r, s1)"
    by (cases "pushTransaction env (InvoiceID txn) s")
  have f: "config s1 = config s \<and> jwtToken s1 = jwtToken s \<and> open_res s1 = open_res s"
    using pushTransaction_frame [of env "InvoiceID txn" s] p by simp
  show ?case
    using p f Cons.IH by (cases r) (simp_all add: log_Printf_def)
qed

lemma push_loop_stdout:
  "stdout (push_loop env transactions s)
     = stdout s @ map (\<lambda>txn. ''URL push: '' @ PushURL (API (config s)) @ ''?invoice_number=''
                        @ InvoiceID txn @ [CHR 0x0A]) transactions"
proof (induction transactions arbitrary: s)
  case Nil
  show ?case by simp
next
  case (Cons txn transactions)
  obtain r s1 where p: "pushTransaction env (InvoiceID txn) s = (r, s1)"
    by (cases "pushTransaction env (InvoiceID txn) s")
  have f: "config s1 = config s"
    using pushTransaction_frame [of env "InvoiceID txn" s] p by simp
  have o: "stdout s1 = stdout s @ [''URL push: '' @ PushURL (API (config s))
             @ ''?invoice_number='' @ InvoiceID txn @ [CHR 0x0A]]"
    using pushTransaction_stdout [of env "InvoiceID txn" s] p by simp
  show ?case
    using p f o Cons.IH by (cases r) (simp_all add: log_Printf_def)
qed

text \<open>
  Every record gets its log line, in order: the success line, or the failure line with
  the cause.
\<close>

lemma push_loop_log:
  "\<exists>lines. log_out (push_loop env transactions s) = log_out s @ lines
     \<and> list_all2 (\<lambda>txn line.
          line = ''Successfully pushed transaction with invoice_id '' @ InvoiceID txn
          \<or> (\<exists>err. line = ''Failed to push transaction with invoice_id '' @ InvoiceID txn
                       @ '': '' @ error_msg err)) transactions lines"
proof (induction transactions arbitrary: s)
  case Nil
  show ?case by simp
next
  case (Cons txn transactions)
  obtain r s1 where p: "pushTransaction env (InvoiceID txn) s = (r, s1)"
    by (cases "pushTransaction env (InvoiceID txn) s")
  have l: "log_out s1 = log_out s"
    using pushTransaction_frame [of env "InvoiceID txn" s] p by simp
  show ?case
  proof (cases r)
    case None
    let ?s2 = "log_Printf (''Successfully pushed transaction with invoice_id ''
                 @ InvoiceID txn) s1"
    obtain lines where
      "log_out (push_loop env transactions ?s2) = log_out ?s2 @ lines"
      and "list_all2 (\<lambda>txn line.
          line = ''Successfully pushed transaction with invoice_id '' @ InvoiceID txn
          \<or> (\<exists>err. line = ''Failed to push transaction with invoice_id '' @ InvoiceID txn
                       @ '': '' @ error_msg err)) transactions lines"
      using Cons.IH [of ?s2] by blast
    then show ?thesis
      using p None l
      by (intro exI [of _ "(''Successfully pushed transaction with invoice_id ''
                 @ InvoiceID txn) # lines"]) (simp add: log_Printf_def)
  next
    case (Some err)
    let ?s2 = "log_Printf (''Failed to push transaction with invoice_id ''
                 @ InvoiceID txn @ '': '' @ error_msg err) s1"
    obtain lines where
      "log_out (push_loop env transactions ?s2) = log_out ?s2 @ lines"
      and "list_all2 (\<lambda>txn line.
          line = ''Successfully pushed transaction with invoice_id '' @ InvoiceID txn
          \<or> (\<exists>err. line = ''Failed to push transaction with invoice_id '' @ InvoiceID txn
                       @ '': '' @ error_msg err)) transactions lines"
      using Cons.IH [of ?s2] by blast
    then show ?thesis
      using p Some l
      by (intro exI [of _ "(''Failed to push transaction with invoice_id ''
                 @ InvoiceID txn @ '': '' @ error_msg err) # lines"])
         (auto simp add: log_Printf_def)
  qed
qed

lemma push_loop_calls:
  "http_calls (push_loop env transactions s)
     = http_calls s @
       map (\<lambda>txn. \<lparr>Method = ''POST'',
                    URL = PushURL (API (config s)) @ ''?invoice_number='' @ InvoiceID txn,
                    Header = [(''Authorization'', ''Bearer '' @ jwtToken s)],
                    ReqBody = None\<rparr>)
         (filter (\<lambda>txn. url_Parse env (PushURL (API (config s)) @ ''?invoice_number=''
                          @ InvoiceID txn) = None) transactions)"
proof (induction transactions arbitrary: s)
  case Nil
  show ?case by simp
next
  case (Cons txn transactions)
  obtain r s1 where p: "pushTransaction env (InvoiceID txn) s = (r, s1)"
    by (cases "pushTransaction env (InvoiceID txn) s")
  have f: "config s1 = config s \<and> jwtToken s1 = jwtToken s"
    using pushTransaction_frame [of env "InvoiceID txn" s] p by simp
  have c: "http_calls s1 = http_calls s @
       (case url_Parse env (PushURL (API (config s)) @ ''?invoice_number='' @ InvoiceID txn) of
          Some err \<Rightarrow> []
        | None \<Rightarrow> [\<lparr>Method = ''POST'',
                     URL = PushURL (API (config s)) @ ''?invoice_number='' @ InvoiceID txn,
                     Header = [(''Authorization'', ''Bearer '' @ jwtToken s)],
                     ReqBody = None\<rparr>])"
    using pushTransaction_calls [of env "InvoiceID txn" s] p by simp
  show ?case
    using p f c Cons.IH
    by (cases r) (simp_all add: log_Printf_def split: option.splits)
qed

subsection \<open>The configuration loader\<close>

lemma loadConfig_frame:
  "jwtToken (snd (loadConfig env s)) = jwtToken s
   \<and> log_out (snd (loadConfig env s)) = log_out s
   \<and> stdout (snd (loadConfig env s)) = stdout s
   \<and> http_calls (snd (loadConfig env s)) = http_calls s
   \<and> open_res (snd (loadConfig env s)) = open_res s"
  by (simp add: loadConfig_def acquire_def release_def Let_def split: sum.splits prod.splits)

text \<open>
  C3, as the code has it. If \<^verbatim>\<open>config.yaml\<close> cannot be opened, \<open>loadConfig\<close> returns
  that error and the state is untouched. If it opens, \<open>loadConfig\<close> returns what the
  decoder returns, and the settings are what the decoder left behind the pointer
  \<^verbatim>\<open>&config\<close>: for a well-formed file the decoded settings, and for a file the decoder
  gives up on whatever it had stored by then. Nothing is rolled back.
\<close>

theorem loadConfig_result:
  "(os_Open env ''config.yaml'' = Inl err \<longrightarrow> loadConfig env s = (Some err, s))
   \<and> (os_Open env ''config.yaml'' = Inr content \<longrightarrow>
        loadConfig env s
          = (fst (yaml_Decode env content (config s)),
             s\<lparr>config := snd (yaml_Decode env content (config s))\<rparr>))"
  by (simp add: loadConfig_def acquire_def release_def Let_def split: prod.splits)

theorem loadConfig_result_witness:
  "os_Open env_missing ''config.yaml''
     = Inl (GoError ''open config.yaml: no such file or directory'')
   \<and> loadConfig env_missing state_zero
       = (Some (GoError ''open config.yaml: no such file or directory''), state_zero)
   \<and> os_Open env_demo ''config.yaml'' = Inr yaml_demo
   \<and> loadConfig env_demo state_zero = (None, state_zero\<lparr>config := cfg_demo\<rparr>)"
proof -
  have a: "os_Open env_missing ''config.yaml''
     = Inl (GoError ''open config.yaml: no such file or directory'')"
    by (simp add: env_missing_def)
  have b: "os_Open env_demo ''config.yaml'' = Inr yaml_demo"
    by (simp add: env_demo_def)
  have c: "yaml_Decode env_demo yaml_demo (config state_zero) = (None, cfg_demo)"
    by (simp add: env_demo_def)
  show ?thesis
    using a b c
      loadConfig_result [of env_missing
        "GoError ''open config.yaml: no such file or directory''" state_zero]
      loadConfig_result [of env_demo _ state_zero yaml_demo]
    by simp
qed

text \<open>
  A file with \<^verbatim>\<open>port: abc\<close>: \<open>loadConfig\<close> returns the decoder's error, and the host
  name that the decoder had stored is in the settings, which started out all zero.
\<close>

theorem loadConfig_partial_counterexample:
  "fst (loadConfig env_mismatch state_zero)
     = Some (GoError ''yaml: unmarshal errors: line 3: cannot unmarshal !!str into int'')
   \<and> config state_zero = Config_zero
   \<and> Host (Database Config_zero) = []
   \<and> Host (Database (config (snd (loadConfig env_mismatch state_zero)))) = ''db.test''"
  by (simp add: loadConfig_def env_mismatch_def env_demo_def state_zero_def Config_zero_def
      acquire_def release_def)

subsection \<open>The authenticator\<close>

lemma login_refused:
  "url_Parse env (LoginURL (API (config s))) = Some err \<Longrightarrow>
     loginAndGetToken env s = (Some err, s)"
  by (simp add: loginAndGetToken_def http_NewRequest_def)

lemma login_transport:
  "url_Parse env (LoginURL (API (config s))) = None \<Longrightarrow>
   client_Do env (length (http_calls s)) (login_request env s) = Inl err \<Longrightarrow>
     loginAndGetToken env s
       = (Some err, s\<lparr>http_calls := http_calls s @ [login_request env s]\<rparr>)"
  by (simp add: loginAndGetToken_def http_NewRequest_def http_Do_def Header_Set_def)

lemma login_unread:
  "url_Parse env (LoginURL (API (config s))) = None \<Longrightarrow>
   client_Do env (length (http_calls s)) (login_request env s) = Inr resp \<Longrightarrow>
   Body resp = Inl err \<Longrightarrow>
     loginAndGetToken env s
       = (Some err, s\<lparr>http_calls := http_calls s @ [login_request env s]\<rparr>)"
  by (simp add: loginAndGetToken_def http_NewRequest_def http_Do_def Header_Set_def
      acquire_def release_def)

lemma login_status:
  "url_Parse env (LoginURL (API (config s))) = None \<Longrightarrow>
   client_Do env (length (http_calls s)) (login_request env s) = Inr resp \<Longrightarrow>
   Body resp = Inr body \<Longrightarrow> StatusCode resp \<noteq> 200 \<Longrightarrow>
     loginAndGetToken env s
       = (Some (GoError (''failed to login, status: '' @ show_int (StatusCode resp))),
          s\<lparr>http_calls := http_calls s @ [login_request env s]\<rparr>)"
  by (simp add: loginAndGetToken_def http_NewRequest_def http_Do_def Header_Set_def
      acquire_def release_def)

lemma login_undecoded:
  "url_Parse env (LoginURL (API (config s))) = None \<Longrightarrow>
   client_Do env (length (http_calls s)) (login_request env s) = Inr resp \<Longrightarrow>
   Body resp = Inr body \<Longrightarrow> StatusCode resp = 200 \<Longrightarrow>
   json_Unmarshal env body LoginResponse_zero = (Some err, loginResp) \<Longrightarrow>
     loginAndGetToken env s
       = (Some err, s\<lparr>http_calls := http_calls s @ [login_request env s]\<rparr>)"
  by (simp add: loginAndGetToken_def http_NewRequest_def http_Do_def Header_Set_def
      acquire_def release_def)

lemma login_ok:
  "url_Parse env (LoginURL (API (config s))) = None \<Longrightarrow>
   client_Do env (length (http_calls s)) (login_request env s) = Inr resp \<Longrightarrow>
   Body resp = Inr body \<Longrightarrow> StatusCode resp = 200 \<Longrightarrow>
   json_Unmarshal env body LoginResponse_zero = (None, loginResp) \<Longrightarrow>
     loginAndGetToken env s
       = (None, s\<lparr>http_calls := http_calls s @ [login_request env s],
                   jwtToken := Token loginResp,
                   log_out := log_out s @ [''Successfully acquired JWT token: ''
                                           @ Token loginResp]\<rparr>)"
  by (simp add: loginAndGetToken_def http_NewRequest_def http_Do_def Header_Set_def
      acquire_def release_def log_Printf_def)

lemma login_cases:
  obtains
    (refused) err where "url_Parse env (LoginURL (API (config s))) = Some err"
      "loginAndGetToken env s = (Some err, s)"
  | (failed) err where "url_Parse env (LoginURL (API (config s))) = None"
      "loginAndGetToken env s
         = (Some err, s\<lparr>http_calls := http_calls s @ [login_request env s]\<rparr>)"
  | (ok) resp body loginResp where "url_Parse env (LoginURL (API (config s))) = None"
      "client_Do env (length (http_calls s)) (login_request env s) = Inr resp"
      "Body resp = Inr body" "StatusCode resp = 200"
      "json_Unmarshal env body LoginResponse_zero = (None, loginResp)"
      "loginAndGetToken env s
       = (None, s\<lparr>http_calls := http_calls s @ [login_request env s],
                   jwtToken := Token loginResp,
                   log_out := log_out s @ [''Successfully acquired JWT token: ''
                                           @ Token loginResp]\<rparr>)"
proof (cases "url_Parse env (LoginURL (API (config s)))")
  case (Some err)
  then show ?thesis using refused login_refused by blast
next
  case None
  show ?thesis
  proof (cases "client_Do env (length (http_calls s)) (login_request env s)")
    case (Inl err)
    then show ?thesis using None failed login_transport by blast
  next
    case (Inr resp)
    show ?thesis
    proof (cases "Body resp")
      case (Inl err)
      then show ?thesis using None Inr failed login_unread by blast
    next
      case body: (Inr body)
      show ?thesis
      proof (cases "StatusCode resp = 200")
        case False
        then show ?thesis using None Inr body failed login_status by blast
      next
        case True
        obtain e loginResp where u: "json_Unmarshal env body LoginResponse_zero = (e, loginResp)"
          by (cases "json_Unmarshal env body LoginResponse_zero")
        show ?thesis
        proof (cases e)
          case (Some err)
          then show ?thesis using None Inr body True u failed login_undecoded by blast
        next
          case n: None
          then show ?thesis using None Inr body True u ok login_ok by blast
        qed
      qed
    qed
  qed
qed

lemma loginAndGetToken_frame:
  "config (snd (loginAndGetToken env s)) = config s
   \<and> stdout (snd (loginAndGetToken env s)) = stdout s
   \<and> open_res (snd (loginAndGetToken env s)) = open_res s"
  by (cases rule: login_cases [of env s]) simp_all

lemma loginAndGetToken_calls:
  "http_calls (snd (loginAndGetToken env s))
     = http_calls s @
       (case url_Parse env (LoginURL (API (config s))) of
          Some err \<Rightarrow> [] | None \<Rightarrow> [login_request env s])"
  by (cases rule: login_cases [of env s]) simp_all

lemma loginAndGetToken_failure:
  "fst (loginAndGetToken env s) = Some err \<Longrightarrow>
     jwtToken (snd (loginAndGetToken env s)) = jwtToken s
     \<and> log_out (snd (loginAndGetToken env s)) = log_out s"
  by (cases rule: login_cases [of env s]) simp_all

text \<open>
  C2. When the login endpoint answers 200 with the body
  \<^verbatim>\<open>{"access_token":"abc123"}\<close> (which the JSON decoder reads as the token \<^verbatim>\<open>abc123\<close>),
  \<open>loginAndGetToken\<close> succeeds and the session token is \<^verbatim>\<open>abc123\<close>. When it answers
  with any other status, \<open>loginAndGetToken\<close> returns an error (the one that names the
  status, if the body could be read) and the session token is what it was before.
\<close>

theorem loginAndGetToken_token:
  \<open>(url_Parse env (LoginURL (API (config s))) = None
     \<and> client_Do env (length (http_calls s)) (login_request env s)
         = Inr \<lparr>StatusCode = 200, Body = Inr ''{"access_token":"abc123"}''\<rparr>
     \<and> json_Unmarshal env ''{"access_token":"abc123"}'' LoginResponse_zero
         = (None, \<lparr>Token = ''abc123''\<rparr>)
     \<longrightarrow> fst (loginAndGetToken env s) = None
         \<and> jwtToken (snd (loginAndGetToken env s)) = ''abc123'')
   \<and> (url_Parse env (LoginURL (API (config s))) = None
     \<and> client_Do env (length (http_calls s)) (login_request env s) = Inr resp
     \<and> StatusCode resp \<noteq> 200
     \<longrightarrow> (\<exists>err. fst (loginAndGetToken env s) = Some err)
         \<and> jwtToken (snd (loginAndGetToken env s)) = jwtToken s
         \<and> (Body resp = Inr body \<longrightarrow> fst (loginAndGetToken env s)
              = Some (GoError (''failed to login, status: '' @ show_int (StatusCode resp)))))\<close>
proof (intro conjI impI)
  assume a: \<open>url_Parse env (LoginURL (API (config s))) = None
     \<and> client_Do env (length (http_calls s)) (login_request env s)
         = Inr \<lparr>StatusCode = 200, Body = Inr ''{"access_token":"abc123"}''\<rparr>
     \<and> json_Unmarshal env ''{"access_token":"abc123"}'' LoginResponse_zero
         = (None, \<lparr>Token = ''abc123''\<rparr>)\<close>
  have \<open>loginAndGetToken env s
       = (None, s\<lparr>http_calls := http_calls s @ [login_request env s],
                   jwtToken := Token \<lparr>Token = ''abc123''\<rparr>,
                   log_out := log_out s @ [''Successfully acquired JWT token: ''
                                           @ Token \<lparr>Token = ''abc123''\<rparr>]\<rparr>)\<close>
    using a
    by (intro login_ok [where resp = \<open>\<lparr>StatusCode = 200,
          Body = Inr ''{"access_token":"abc123"}''\<rparr>\<close>
          and body = \<open>''{"access_token":"abc123"}''\<close>]) simp_all
  then show "fst (loginAndGetToken env s) = None"
    and \<open>jwtToken (snd (loginAndGetToken env s)) = ''abc123''\<close>
    by simp_all
next
  assume b: "url_Parse env (LoginURL (API (config s))) = None
     \<and> client_Do env (length (http_calls s)) (login_request env s) = Inr resp
     \<and> StatusCode resp \<noteq> 200"
  have r: "loginAndGetToken env s
       = ((case Body resp of Inl err \<Rightarrow> Some err
           | Inr body \<Rightarrow> Some (GoError (''failed to login, status: ''
                                   @ show_int (StatusCode resp)))),
          s\<lparr>http_calls := http_calls s @ [login_request env s]\<rparr>)"
  proof (cases "Body resp")
    case (Inl err)
    then show ?thesis using b login_unread [of env s resp err] by simp
  next
    case (Inr body)
    then show ?thesis using b login_status [of env s resp body] by simp
  qed
  show "\<exists>err. fst (loginAndGetToken env s) = Some err"
    by (simp add: r split: sum.splits)
  show "jwtToken (snd (loginAndGetToken env s)) = jwtToken s"
    by (simp add: r)
  show "fst (loginAndGetToken env s)
          = Some (GoError (''failed to login, status: '' @ show_int (StatusCode resp)))"
    if "Body resp = Inr body"
    using that by (simp add: r)
qed

text \<open>
  The theorem at a 200 answer with the token, and at a 401 answer, both from the state
  in which the token is still empty.
\<close>

theorem loginAndGetToken_token_witness:
  \<open>fst (loginAndGetToken env_demo st_loaded) = None
   \<and> jwtToken (snd (loginAndGetToken env_demo st_loaded)) = ''abc123''
   \<and> jwtToken st_loaded = []
   \<and> fst (loginAndGetToken env_401 st_loaded)
       = Some (GoError ''failed to login, status: 401'')
   \<and> jwtToken (snd (loginAndGetToken env_401 st_loaded)) = []\<close>
proof -
  have j: "jwtToken st_loaded = []"
    by (simp add: st_loaded_def state_zero_def)
  have \<open>fst (loginAndGetToken env_demo st_loaded) = None
         \<and> jwtToken (snd (loginAndGetToken env_demo st_loaded)) = ''abc123''\<close>
    using loginAndGetToken_token [of env_demo st_loaded]
    by (simp add: env_demo_def st_loaded_def cfg_demo_def state_zero_def
        LoginResponse_zero_def)
  moreover have \<open>fst (loginAndGetToken env_401 st_loaded)
       = Some (GoError ''failed to login, status: 401'')
     \<and> jwtToken (snd (loginAndGetToken env_401 st_loaded)) = []\<close>
    using loginAndGetToken_token [of env_401 st_loaded
        \<open>\<lparr>StatusCode = 401, Body = Inr ''{"error":"unauthorized"}''\<rparr>\<close>
        \<open>''{"error":"unauthorized"}''\<close>]
    by (simp add: env_401_def env_demo_def st_loaded_def cfg_demo_def state_zero_def
        show_int_401)
  ultimately show ?thesis
    using j by simp
qed

text \<open>
  C9, as the code has it. When the login endpoint answers 200 and
  \<^verbatim>\<open>json.Unmarshal\<close> accepts the body and leaves the token of the zero
  \<open>LoginResponse\<close> empty (a JSON object in which no key matches \<^verbatim>\<open>access_token\<close>, or in
  which it holds the empty string), \<open>loginAndGetToken\<close> succeeds with the empty
  session token: the code has no test for a missing token and raises no error. Every
  request the dispatch loop sends from there carries the header \<^verbatim>\<open>Authorization\<close> with
  the value \<^verbatim>\<open>Bearer \<close> and nothing after it.
\<close>

theorem loginAndGetToken_empty_token:
  assumes "url_Parse env (LoginURL (API (config s))) = None"
    and "client_Do env (length (http_calls s)) (login_request env s) = Inr resp"
    and "StatusCode resp = 200"
    and "Body resp = Inr body"
    and "json_Unmarshal env body LoginResponse_zero = (None, loginResp)"
    and "Token loginResp = []"
  shows "fst (loginAndGetToken env s) = None
    \<and> jwtToken (snd (loginAndGetToken env s)) = []
    \<and> http_calls (push_loop env transactions (snd (loginAndGetToken env s)))
        = http_calls (snd (loginAndGetToken env s)) @
          map (\<lambda>txn. \<lparr>Method = ''POST'',
                       URL = PushURL (API (config s)) @ ''?invoice_number='' @ InvoiceID txn,
                       Header = [(''Authorization'', ''Bearer '')],
                       ReqBody = None\<rparr>)
            (filter (\<lambda>txn. url_Parse env (PushURL (API (config s)) @ ''?invoice_number=''
                             @ InvoiceID txn) = None) transactions)"
proof -
  have l: "loginAndGetToken env s
       = (None, s\<lparr>http_calls := http_calls s @ [login_request env s],
                   jwtToken := Token loginResp,
                   log_out := log_out s @ [''Successfully acquired JWT token: ''
                                           @ Token loginResp]\<rparr>)"
    by (rule login_ok [OF assms(1) assms(2) assms(4) assms(3) assms(5)])
  show ?thesis
    using push_loop_calls [of env transactions "snd (loginAndGetToken env s)"] assms(6)
    by (simp add: l)
qed

theorem loginAndGetToken_empty_token_witness:
  "url_Parse env_no_token (LoginURL (API (config st_loaded))) = None
   \<and> client_Do env_no_token (length (http_calls st_loaded))
        (login_request env_no_token st_loaded) = Inr \<lparr>StatusCode = 200, Body = Inr ''{}''\<rparr>
   \<and> json_Unmarshal env_no_token ''{}'' LoginResponse_zero = (None, LoginResponse_zero)
   \<and> Token LoginResponse_zero = []
   \<and> fst (loginAndGetToken env_no_token st_loaded) = None
   \<and> jwtToken (snd (loginAndGetToken env_no_token st_loaded)) = []
   \<and> map Header (http_calls (push_loop env_no_token [\<lparr>InvoiceID = ''INV-1''\<rparr>]
        (snd (loginAndGetToken env_no_token st_loaded))))
       = [[(''Content-Type'', ''application/json'')], [(''Authorization'', ''Bearer '')]]"
proof -
  have a: "url_Parse env_no_token (LoginURL (API (config st_loaded))) = None"
    by (simp add: env_no_token_def env_demo_def st_loaded_def cfg_demo_def)
  have b: "client_Do env_no_token (length (http_calls st_loaded))
        (login_request env_no_token st_loaded) = Inr \<lparr>StatusCode = 200, Body = Inr ''{}''\<rparr>"
    by (simp add: env_no_token_def)
  have c: "json_Unmarshal env_no_token ''{}'' LoginResponse_zero = (None, LoginResponse_zero)"
    by (simp add: env_no_token_def env_demo_def)
  have d: "Token LoginResponse_zero = []"
    by (simp add: LoginResponse_zero_def)
  note t = loginAndGetToken_empty_token [OF a b _ _ c d, of "[\<lparr>InvoiceID = ''INV-1''\<rparr>]"]
  have e: "http_calls (snd (loginAndGetToken env_no_token st_loaded))
             = [login_request env_no_token st_loaded]"
    using loginAndGetToken_calls [of env_no_token st_loaded] a
    by (simp add: st_loaded_def state_zero_def)
  have f: "url_Parse env_no_token (PushURL (API (config st_loaded)) @ ''?invoice_number=''
             @ ''INV-1'') = None"
    by (simp add: env_no_token_def env_demo_def st_loaded_def cfg_demo_def)
  show ?thesis
    using a b c d t e f by simp
qed

text \<open>
  Two bodies that are valid JSON without a member named \<^verbatim>\<open>access_token\<close>, outside the
  statement above: for the array \<^verbatim>\<open>[]\<close> the decoder's error is returned, and for the
  key \<^verbatim>\<open>ACCESS_TOKEN\<close> the login succeeds with the token \<^verbatim>\<open>abc123\<close>, not the empty one.
\<close>

theorem loginAndGetToken_nonobject_counterexample:
  \<open>client_Do env_json_array (length (http_calls st_loaded))
       (login_request env_json_array st_loaded) = Inr \<lparr>StatusCode = 200, Body = Inr ''[]''\<rparr>
   \<and> fst (loginAndGetToken env_json_array st_loaded)
       = Some (GoError ''json: cannot unmarshal array into Go value of type main.LoginResponse'')
   \<and> client_Do env_json_upper (length (http_calls st_loaded))
       (login_request env_json_upper st_loaded)
       = Inr \<lparr>StatusCode = 200, Body = Inr ''{"ACCESS_TOKEN":"abc123"}''\<rparr>
   \<and> fst (loginAndGetToken env_json_upper st_loaded) = None
   \<and> jwtToken (snd (loginAndGetToken env_json_upper st_loaded)) = ''abc123''\<close>
  by (simp add: loginAndGetToken_def http_NewRequest_def http_Do_def Header_Set_def
      log_Printf_def acquire_def release_def env_json_array_def env_json_upper_def
      env_demo_def st_loaded_def cfg_demo_def state_zero_def LoginResponse_zero_def)

subsection \<open>The whole run\<close>

text \<open>
  The run in \<open>env_demo\<close>: two pending invoices, of which the endpoint accepts the
  first and answers 500 for the second; and the first two stages in \<open>env_empty\<close>.
\<close>

lemma demo_loadConfig: "loadConfig env_demo state_zero = (None, st_loaded)"
  by (simp add: loadConfig_def env_demo_def st_loaded_def state_zero_def acquire_def
      release_def)

lemma demo_login: "loginAndGetToken env_demo st_loaded = (None, st_logged_in)"
  by (simp add: loginAndGetToken_def http_NewRequest_def http_Do_def Header_Set_def
      log_Printf_def acquire_def release_def env_demo_def st_logged_in_def st_loaded_def
      cfg_demo_def state_zero_def LoginResponse_zero_def)

lemma demo_fetch:
  "getTransactionsFromDB env_demo st_logged_in
     = (Inr [\<lparr>InvoiceID = ''INV-1''\<rparr>, \<lparr>InvoiceID = ''INV-2''\<rparr>], st_logged_in)"
proof -
  have "fst (getTransactionsFromDB env_demo st_logged_in)
          = Inr [\<lparr>InvoiceID = ''INV-1''\<rparr>, \<lparr>InvoiceID = ''INV-2''\<rparr>]"
    by (simp add: getTransactionsFromDB_def env_demo_def Let_def)
  then show ?thesis
    using getTransactionsFromDB_state [of env_demo st_logged_in]
    by (simp add: prod_eq_iff)
qed

lemma demo_push_loop:
  "push_loop env_demo [\<lparr>InvoiceID = ''INV-1''\<rparr>, \<lparr>InvoiceID = ''INV-2''\<rparr>] st_logged_in
     = st_logged_in
        \<lparr>log_out := [''Successfully acquired JWT token: abc123'',
            ''Successfully pushed transaction with invoice_id INV-1'',
            ''Failed to push transaction with invoice_id INV-2: failed to push transaction with invoice_id INV-2, status: 500''],
         stdout := [''URL push: http://api.test/push?invoice_number=INV-1\<newline>'',
            ''URL push: http://api.test/push?invoice_number=INV-2\<newline>''],
         http_calls := [login_request env_demo st_loaded,
            push_request st_logged_in ''INV-1'', push_request st_logged_in ''INV-2'']\<rparr>"
  by (simp add: pushTransaction_def http_NewRequest_def http_Do_def Header_Set_def
      log_Printf_def fmt_Printf_def acquire_def release_def env_demo_def st_logged_in_def
      st_loaded_def cfg_demo_def state_zero_def show_int_500)

lemma demo_empty_loadConfig: "loadConfig env_empty state_zero = (None, st_loaded)"
  by (simp add: loadConfig_def env_empty_def env_demo_def st_loaded_def state_zero_def
      acquire_def release_def)

lemma demo_empty_login: "loginAndGetToken env_empty st_loaded = (None, st_logged_in)"
  by (simp add: loginAndGetToken_def http_NewRequest_def http_Do_def Header_Set_def
      log_Printf_def acquire_def release_def env_empty_def env_demo_def st_logged_in_def
      st_loaded_def cfg_demo_def state_zero_def LoginResponse_zero_def)

text \<open>
  The run in \<open>env_fail_first\<close>, where the push that fails comes first.
\<close>

lemma fail_first_loadConfig: "loadConfig env_fail_first state_zero = (None, st_loaded)"
  by (simp add: loadConfig_def env_fail_first_def env_demo_def st_loaded_def state_zero_def
      acquire_def release_def)

lemma fail_first_login: "loginAndGetToken env_fail_first st_loaded = (None, st_logged_in)"
  by (simp add: loginAndGetToken_def http_NewRequest_def http_Do_def Header_Set_def
      log_Printf_def acquire_def release_def env_fail_first_def env_demo_def
      st_logged_in_def st_loaded_def cfg_demo_def state_zero_def LoginResponse_zero_def)

lemma fail_first_fetch:
  "getTransactionsFromDB env_fail_first st_logged_in
     = (Inr [\<lparr>InvoiceID = ''INV-2''\<rparr>, \<lparr>InvoiceID = ''INV-1''\<rparr>], st_logged_in)"
proof -
  have "fst (getTransactionsFromDB env_fail_first st_logged_in)
          = Inr [\<lparr>InvoiceID = ''INV-2''\<rparr>, \<lparr>InvoiceID = ''INV-1''\<rparr>]"
    by (simp add: getTransactionsFromDB_def env_fail_first_def env_demo_def Let_def)
  then show ?thesis
    using getTransactionsFromDB_state [of env_fail_first st_logged_in]
    by (simp add: prod_eq_iff)
qed

lemma fail_first_push_loop:
  "push_loop env_fail_first [\<lparr>InvoiceID = ''INV-2''\<rparr>, \<lparr>InvoiceID = ''INV-1''\<rparr>] st_logged_in
     = st_logged_in
        \<lparr>log_out := [''Successfully acquired JWT token: abc123'',
            ''Failed to push transaction with invoice_id INV-2: failed to push transaction with invoice_id INV-2, status: 500'',
            ''Successfully pushed transaction with invoice_id INV-1''],
         stdout := [''URL push: http://api.test/push?invoice_number=INV-2\<newline>'',
            ''URL push: http://api.test/push?invoice_number=INV-1\<newline>''],
         http_calls := [login_request env_demo st_loaded,
            push_request st_logged_in ''INV-2'', push_request st_logged_in ''INV-1'']\<rparr>"
  by (simp add: pushTransaction_def http_NewRequest_def http_Do_def Header_Set_def
      log_Printf_def fmt_Printf_def acquire_def release_def env_fail_first_def env_demo_def
      st_logged_in_def st_loaded_def cfg_demo_def state_zero_def show_int_500)

text \<open>
  C1. Once the three fatal stages have passed, \<open>main\<close> exits with status zero whatever
  the pushes do, and every fetched record is processed, in order: each has its line
  on standard output (printed by its call of \<open>pushTransaction\<close>), its POST request
  among the requests sent (for every record whose URL \<^verbatim>\<open>http.NewRequest\<close> accepts, in
  the order of the records, whatever was answered to the requests before it) and its
  line in the log, the success line or the failure line. A failed push does not end
  the loop.
\<close>

theorem main_pushes_every_record:
  assumes "loadConfig env s = (None, s1)"
    and "loginAndGetToken env s1 = (None, s2)"
    and "getTransactionsFromDB env s2 = (Inr transactions, s3)"
  shows "fst (main env s) = 0
    \<and> stdout (snd (main env s))
        = stdout s3 @ map (\<lambda>txn. ''URL push: '' @ PushURL (API (config s3))
                              @ ''?invoice_number='' @ InvoiceID txn @ [CHR 0x0A]) transactions
    \<and> http_calls (snd (main env s))
        = http_calls s3
          @ map (\<lambda>txn. push_request s3 (InvoiceID txn))
              (filter (\<lambda>txn. url_Parse env (PushURL (API (config s3))
                         @ ''?invoice_number='' @ InvoiceID txn) = None) transactions)
    \<and> (\<exists>lines. log_out (snd (main env s)) = log_out s3 @ lines
          \<and> list_all2 (\<lambda>txn line.
               line = ''Successfully pushed transaction with invoice_id '' @ InvoiceID txn
               \<or> (\<exists>err. line = ''Failed to push transaction with invoice_id ''
                            @ InvoiceID txn @ '': '' @ error_msg err)) transactions lines)"
proof -
  have m: "main env s = (0, push_loop env transactions s3)"
    using assms by (simp add: main_def)
  show ?thesis
    using push_loop_stdout [of env transactions s3] push_loop_log [of env transactions s3]
      push_loop_calls [of env transactions s3]
    by (simp add: m)
qed

text \<open>
  The theorem where the first push is answered 500 and the second 200: both requests
  are sent, and the failure line is followed by the success line.
\<close>

theorem main_pushes_every_record_witness:
  "loadConfig env_fail_first state_zero = (None, st_loaded)
   \<and> loginAndGetToken env_fail_first st_loaded = (None, st_logged_in)
   \<and> getTransactionsFromDB env_fail_first st_logged_in
       = (Inr [\<lparr>InvoiceID = ''INV-2''\<rparr>, \<lparr>InvoiceID = ''INV-1''\<rparr>], st_logged_in)
   \<and> fst (main env_fail_first state_zero) = 0
   \<and> stdout (snd (main env_fail_first state_zero))
       = [''URL push: http://api.test/push?invoice_number=INV-2\<newline>'',
          ''URL push: http://api.test/push?invoice_number=INV-1\<newline>'']
   \<and> http_calls (snd (main env_fail_first state_zero))
       = [login_request env_demo st_loaded,
          \<lparr>Method = ''POST'', URL = ''http://api.test/push?invoice_number=INV-2'',
           Header = [(''Authorization'', ''Bearer abc123'')], ReqBody = None\<rparr>,
          \<lparr>Method = ''POST'', URL = ''http://api.test/push?invoice_number=INV-1'',
           Header = [(''Authorization'', ''Bearer abc123'')], ReqBody = None\<rparr>]
   \<and> log_out (snd (main env_fail_first state_zero))
       = [''Successfully acquired JWT token: abc123'',
          ''Failed to push transaction with invoice_id INV-2: failed to push transaction with invoice_id INV-2, status: 500'',
          ''Successfully pushed transaction with invoice_id INV-1'']"
proof -
  note t = main_pushes_every_record [OF fail_first_loadConfig fail_first_login fail_first_fetch]
  have m: "main env_fail_first state_zero
     = (0, push_loop env_fail_first [\<lparr>InvoiceID = ''INV-2''\<rparr>, \<lparr>InvoiceID = ''INV-1''\<rparr>]
             st_logged_in)"
    by (simp add: main_def fail_first_loadConfig fail_first_login fail_first_fetch)
  have c: "PushURL (API (config st_logged_in)) = ''http://api.test/push''"
    and c1: "jwtToken st_logged_in = ''abc123''"
    and o: "stdout st_logged_in = []"
    and h: "http_calls st_logged_in = [login_request env_demo st_loaded]"
    by (simp_all add: st_logged_in_def st_loaded_def cfg_demo_def state_zero_def)
  have u: "url_Parse env_fail_first ''http://api.test/push?invoice_number=INV-2'' = None"
    "url_Parse env_fail_first ''http://api.test/push?invoice_number=INV-1'' = None"
    by (simp_all add: env_fail_first_def env_demo_def)
  have lg: "log_out (snd (main env_fail_first state_zero))
       = [''Successfully acquired JWT token: abc123'',
          ''Failed to push transaction with invoice_id INV-2: failed to push transaction with invoice_id INV-2, status: 500'',
          ''Successfully pushed transaction with invoice_id INV-1'']"
    by (simp only: m snd_conv fail_first_push_loop) simp
  have t1: "fst (main env_fail_first state_zero) = 0"
    and t2: "stdout (snd (main env_fail_first state_zero))
        = stdout st_logged_in @ map (\<lambda>txn. ''URL push: '' @ PushURL (API (config st_logged_in))
                              @ ''?invoice_number='' @ InvoiceID txn @ [CHR 0x0A])
            [\<lparr>InvoiceID = ''INV-2''\<rparr>, \<lparr>InvoiceID = ''INV-1''\<rparr>]"
    and t3: "http_calls (snd (main env_fail_first state_zero))
        = http_calls st_logged_in
          @ map (\<lambda>txn. push_request st_logged_in (InvoiceID txn))
              (filter (\<lambda>txn. url_Parse env_fail_first (PushURL (API (config st_logged_in))
                         @ ''?invoice_number='' @ InvoiceID txn) = None)
                 [\<lparr>InvoiceID = ''INV-2''\<rparr>, \<lparr>InvoiceID = ''INV-1''\<rparr>])"
    using t by blast+
  have t2': "stdout (snd (main env_fail_first state_zero))
       = [''URL push: http://api.test/push?invoice_number=INV-2\<newline>'',
          ''URL push: http://api.test/push?invoice_number=INV-1\<newline>'']"
    using t2 by (simp add: c o)
  have t3': "http_calls (snd (main env_fail_first state_zero))
       = [login_request env_demo st_loaded,
          \<lparr>Method = ''POST'', URL = ''http://api.test/push?invoice_number=INV-2'',
           Header = [(''Authorization'', ''Bearer abc123'')], ReqBody = None\<rparr>,
          \<lparr>Method = ''POST'', URL = ''http://api.test/push?invoice_number=INV-1'',
           Header = [(''Authorization'', ''Bearer abc123'')], ReqBody = None\<rparr>]"
    using t3 u by (simp add: c c1 h)
  show ?thesis
    using fail_first_loadConfig fail_first_login fail_first_fetch t1 t2' t3' lg
    by simp
qed

text \<open>
  C8. When the fetcher returns no record, \<open>main\<close> exits with status zero in the state
  the login left: no request beyond the login, nothing on standard output, no log
  line beyond the one of the login.
\<close>

theorem main_empty_fetch:
  assumes "loadConfig env s = (None, s1)"
    and "loginAndGetToken env s1 = (None, s2)"
    and "fst (getTransactionsFromDB env s2) = Inr []"
  shows "main env s = (0, s2)
    \<and> http_calls (snd (main env s)) = http_calls s2
    \<and> stdout (snd (main env s)) = stdout s
    \<and> log_out (snd (main env s)) = log_out s2"
proof -
  have "getTransactionsFromDB env s2 = (Inr [], s2)"
    using assms(3) getTransactionsFromDB_state [of env s2] by (simp add: prod_eq_iff)
  then have m: "main env s = (0, s2)"
    using assms by (simp add: main_def)
  have "stdout s1 = stdout s"
    using loadConfig_frame [of env s] assms(1) by simp
  moreover have "stdout s2 = stdout s1"
    using loginAndGetToken_frame [of env s1] assms(2) by simp
  ultimately show ?thesis
    by (simp add: m)
qed

theorem main_empty_fetch_witness:
  "loadConfig env_empty state_zero = (None, st_loaded)
   \<and> loginAndGetToken env_empty st_loaded = (None, st_logged_in)
   \<and> fst (getTransactionsFromDB env_empty st_logged_in) = Inr []
   \<and> main env_empty state_zero = (0, st_logged_in)
   \<and> http_calls (snd (main env_empty state_zero)) = [login_request env_demo st_loaded]
   \<and> stdout (snd (main env_empty state_zero)) = []
   \<and> log_out (snd (main env_empty state_zero)) = [''Successfully acquired JWT token: abc123'']"
proof -
  have f: "fst (getTransactionsFromDB env_empty st_logged_in) = Inr []"
    by (simp add: getTransactionsFromDB_def env_empty_def env_demo_def Let_def)
  show ?thesis
    using main_empty_fetch [OF demo_empty_loadConfig demo_empty_login f]
      demo_empty_loadConfig demo_empty_login f
    by (simp add: st_logged_in_def st_loaded_def state_zero_def)
qed

text \<open>
  C6. A run of \<open>main\<close> either ends fatally, with nothing printed by a push and at most
  the login request sent; or the login has succeeded, the session token is the one the
  decoder took from the login response, the loop runs over exactly the sequence the
  fetcher returned, and the requests sent are the login request followed by the push
  requests, each with the header \<^verbatim>\<open>Bearer\<close> and that token.
\<close>

theorem main_token_before_push:
  "(\<exists>s1 s2 transactions body loginResp.
       loadConfig env s = (None, s1)
       \<and> loginAndGetToken env s1 = (None, s2)
       \<and> json_Unmarshal env body LoginResponse_zero = (None, loginResp)
       \<and> jwtToken s2 = Token loginResp
       \<and> getTransactionsFromDB env s2 = (Inr transactions, s2)
       \<and> main env s = (0, push_loop env transactions s2)
       \<and> stdout (snd (main env s))
           = stdout s @ map (\<lambda>txn. ''URL push: '' @ PushURL (API (config s2))
                               @ ''?invoice_number='' @ InvoiceID txn @ [CHR 0x0A]) transactions
       \<and> http_calls (snd (main env s))
           = http_calls s @ [login_request env s1]
             @ map (\<lambda>txn. push_request s2 (InvoiceID txn))
                 (filter (\<lambda>txn. url_Parse env (PushURL (API (config s2))
                            @ ''?invoice_number='' @ InvoiceID txn) = None) transactions))
   \<or> (fst (main env s) = 1
       \<and> stdout (snd (main env s)) = stdout s
       \<and> (http_calls (snd (main env s)) = http_calls s
           \<or> (\<exists>s1. http_calls (snd (main env s)) = http_calls s @ [login_request env s1])))"
proof -
  obtain r1 s1 where l: "loadConfig env s = (r1, s1)"
    by (cases "loadConfig env s")
  have f1: "stdout s1 = stdout s" "http_calls s1 = http_calls s"
    using loadConfig_frame [of env s] l by simp_all
  show ?thesis
  proof (cases r1)
    case (Some err)
    then have "main env s = (1, log_Printf (''Failed to load config: '' @ error_msg err) s1)"
      using l by (simp add: main_def log_Fatalf_def)
    then show ?thesis
      using f1 by (simp add: log_Printf_def)
  next
    case None
    note r1 = None
    show ?thesis
    proof (cases rule: login_cases [of env s1])
      case (refused err)
      then have "main env s
          = (1, log_Printf (''Failed to login and get JWT token: '' @ error_msg err) s1)"
        using l r1 by (simp add: main_def log_Fatalf_def)
      then show ?thesis
        using f1 by (simp add: log_Printf_def)
    next
      case (failed err)
      then have "main env s
          = (1, log_Printf (''Failed to login and get JWT token: '' @ error_msg err)
                  (s1\<lparr>http_calls := http_calls s1 @ [login_request env s1]\<rparr>))"
        using l r1 by (simp add: main_def log_Fatalf_def)
      then have "fst (main env s) = 1" "stdout (snd (main env s)) = stdout s"
        "http_calls (snd (main env s)) = http_calls s @ [login_request env s1]"
        using f1 by (simp_all add: log_Printf_def)
      then show ?thesis by blast
    next
      case (ok resp body loginResp)
      define s2 where "s2 = s1\<lparr>http_calls := http_calls s1 @ [login_request env s1],
                   jwtToken := Token loginResp,
                   log_out := log_out s1 @ [''Successfully acquired JWT token: ''
                                           @ Token loginResp]\<rparr>"
      have g: "loginAndGetToken env s1 = (None, s2)"
        using ok(6) by (simp add: s2_def)
      have f2: "stdout s2 = stdout s" "http_calls s2 = http_calls s @ [login_request env s1]"
        "jwtToken s2 = Token loginResp"
        using f1 by (simp_all add: s2_def)
      obtain r3 where t: "getTransactionsFromDB env s2 = (r3, s2)"
        using getTransactionsFromDB_state [of env s2]
        by (cases "getTransactionsFromDB env s2") simp
      show ?thesis
      proof (cases r3)
        case (Inl err)
        then have "main env s
            = (1, log_Printf (''Failed to get transactions from the database: ''
                      @ error_msg err) s2)"
          using l r1 g t by (simp add: main_def log_Fatalf_def)
        then have "fst (main env s) = 1" "stdout (snd (main env s)) = stdout s"
          "http_calls (snd (main env s)) = http_calls s @ [login_request env s1]"
          using f2 by (simp_all add: log_Printf_def)
        then show ?thesis by blast
      next
        case (Inr transactions)
        then have m: "main env s = (0, push_loop env transactions s2)"
          using l r1 g t by (simp add: main_def)
        have "stdout (snd (main env s))
           = stdout s @ map (\<lambda>txn. ''URL push: '' @ PushURL (API (config s2))
                               @ ''?invoice_number='' @ InvoiceID txn @ [CHR 0x0A]) transactions"
          using push_loop_stdout [of env transactions s2] f2 by (simp add: m)
        moreover have "http_calls (snd (main env s))
           = http_calls s @ [login_request env s1]
             @ map (\<lambda>txn. push_request s2 (InvoiceID txn))
                 (filter (\<lambda>txn. url_Parse env (PushURL (API (config s2))
                            @ ''?invoice_number='' @ InvoiceID txn) = None) transactions)"
          using push_loop_calls [of env transactions s2] f2 by (simp add: m)
        ultimately show ?thesis
          using l r1 g ok(5) f2(3) t Inr m by blast
      qed
    qed
  qed
qed

theorem main_token_before_push_witness:
  "fst (main env_demo state_zero) = 0
   \<and> jwtToken (snd (main env_demo state_zero)) = ''abc123''
   \<and> map Header (http_calls (snd (main env_demo state_zero)))
       = [[(''Content-Type'', ''application/json'')],
          [(''Authorization'', ''Bearer abc123'')],
          [(''Authorization'', ''Bearer abc123'')]]
   \<and> map URL (http_calls (snd (main env_demo state_zero)))
       = [''http://api.test/login'',
          ''http://api.test/push?invoice_number=INV-1'',
          ''http://api.test/push?invoice_number=INV-2'']"
proof -
  have m: "main env_demo state_zero
     = (0, push_loop env_demo [\<lparr>InvoiceID = ''INV-1''\<rparr>, \<lparr>InvoiceID = ''INV-2''\<rparr>]
             st_logged_in)"
    by (simp add: main_def demo_loadConfig demo_login demo_fetch)
  have c: "PushURL (API (config st_logged_in)) = ''http://api.test/push''"
    and c1: "jwtToken st_logged_in = ''abc123''"
    and c2: "LoginURL (API (config st_loaded)) = ''http://api.test/login''"
    by (simp_all add: st_logged_in_def st_loaded_def cfg_demo_def)
  have "fst (main env_demo state_zero) = 0"
    by (simp only: m fst_conv)
  moreover have "jwtToken (snd (main env_demo state_zero)) = ''abc123''"
    by (simp only: m snd_conv demo_push_loop) (simp add: c1)
  moreover have "map Header (http_calls (snd (main env_demo state_zero)))
       = [[(''Content-Type'', ''application/json'')],
          [(''Authorization'', ''Bearer abc123'')],
          [(''Authorization'', ''Bearer abc123'')]]"
    by (simp only: m snd_conv demo_push_loop) (simp add: c1)
  moreover have "map URL (http_calls (snd (main env_demo state_zero)))
       = [''http://api.test/login'',
          ''http://api.test/push?invoice_number=INV-1'',
          ''http://api.test/push?invoice_number=INV-2'']"
    by (simp only: m snd_conv demo_push_loop) (simp add: c c2)
  ultimately show ?thesis
    using main_token_before_push [of env_demo state_zero] by simp
qed

end
